theory Spec2Isabelle
  imports Main "HOL-Library.Sublist"
begin

section \<open>Python strings\<close>

text \<open>
  A Python \<open>str\<close> is the list of its Unicode code points; \<open>lit\<close> turns a literal of the
  source into such a list.
\<close>

type_synonym unicode = "nat list"

definition lit :: "string \<Rightarrow> unicode" where
  "lit s = map of_char s"

text \<open>
  \<open>str.isspace\<close> on one code point: the control characters 0x09 to 0x0D and 0x1C to 0x1F,
  the space, U+0085, U+00A0, U+1680, U+2000 to U+200A, U+2028, U+2029, U+202F, U+205F and
  U+3000. \<open>str.strip()\<close> removes these at both ends.
\<close>

definition is_space :: "nat \<Rightarrow> bool" where
  "is_space c =
     ((0x09 \<le> c \<and> c \<le> 0x0D) \<or> (0x1C \<le> c \<and> c \<le> 0x20) \<or> c = 0x85 \<or> c = 0xA0 \<or>
      c = 0x1680 \<or> (0x2000 \<le> c \<and> c \<le> 0x200A) \<or> c = 0x2028 \<or> c = 0x2029 \<or>
      c = 0x202F \<or> c = 0x205F \<or> c = 0x3000)"

definition strip :: "unicode \<Rightarrow> unicode" where
  "strip s = rev (dropWhile is_space (rev (dropWhile is_space s)))"

text \<open>
  \<open>str.lower\<close>. Below U+0100 the cased letters are \<open>A\<close> to \<open>Z\<close> and U+00C0 to U+00DE without
  the multiplication sign U+00D7, each mapped 32 code points up, and the mapping of a text
  made of such code points is character by character. For any other text the result is
  given by the case mapping of the Unicode database of the runtime, which is not part of
  the sources: it is the parameter \<open>table\<close>.
\<close>

definition lower_cp :: "nat \<Rightarrow> nat" where
  "lower_cp c =
     (if (0x41 \<le> c \<and> c \<le> 0x5A) \<or> (0xC0 \<le> c \<and> c \<le> 0xDE \<and> c \<noteq> 0xD7) then c + 32 else c)"

definition lower :: "(unicode \<Rightarrow> unicode) \<Rightarrow> unicode \<Rightarrow> unicode" where
  "lower table s = (if list_all (\<lambda>c. c < 0x100) s then map lower_cp s else table s)"

text \<open>
  \<open>s.split(sep)\<close> for a separator \<open>sep\<close>: the text is cut at every occurrence of \<open>sep\<close>,
  found from the left and not overlapping. Python raises \<open>ValueError\<close> for the empty
  separator, which is \<open>None\<close> here.
\<close>

fun split_at :: "nat \<Rightarrow> unicode \<Rightarrow> unicode \<Rightarrow> unicode \<Rightarrow> unicode list" where
  "split_at d ds acc [] = [rev acc]"
| "split_at d ds acc (c # cs) =
     (if prefix (d # ds) (c # cs)
      then rev acc # split_at d ds [] (drop (length ds) cs)
      else split_at d ds (c # acc) cs)"

definition split :: "unicode \<Rightarrow> unicode \<Rightarrow> unicode list option" where
  "split s sep = (case sep of [] \<Rightarrow> None | d # ds \<Rightarrow> Some (split_at d ds [] s))"

text \<open>\<open>str(n)\<close> for an integer, and the zero padding of \<open>date.isoformat\<close>.\<close>

definition digit :: "nat \<Rightarrow> nat" where
  "digit n = 0x30 + n"

fun dec :: "nat \<Rightarrow> unicode" where
  "dec n = (if n < 10 then [digit n] else dec (n div 10) @ [digit (n mod 10)])"

definition str_int :: "int \<Rightarrow> unicode" where
  "str_int i = (if i < 0 then 0x2D # dec (nat (- i)) else dec (nat i))"

definition zfill :: "nat \<Rightarrow> unicode \<Rightarrow> unicode" where
  "zfill w s = replicate (w - length s) 0x30 @ s"

declare dec.simps [simp del]

section \<open>Data model\<close>

text \<open>
  \<open>datetime.date\<close> as the form field arrives at \<open>as_form\<close>, already parsed by the
  framework; \<open>str(value)\<close> on it is \<open>isoformat\<close>.
\<close>

record date =
  year :: nat
  month :: nat
  day :: nat

definition date_str :: "date \<Rightarrow> unicode" where
  "date_str d =
     zfill 4 (dec (year d)) @ lit ''-'' @ zfill 2 (dec (month d)) @ lit ''-'' @ zfill 2 (dec (day d))"

text \<open>The uploaded file: its original filename and the bytes that \<open>read()\<close> returns, one
  \<open>char\<close> per byte.\<close>

record UploadFile =
  filename :: unicode
  content :: string

text \<open>
  \<open>ProfileCreateRequestSchema\<close>: the six fields, in the order the class declares them.
  The same record holds the submitted values (the arguments of \<open>as_form\<close>) and the
  validated ones (the instance that \<open>as_form\<close> returns).
\<close>

record ProfileCreateRequestSchema =
  first_name :: unicode
  last_name :: unicode
  gender :: unicode
  date_of_birth :: date
  info :: unicode
  avatar :: UploadFile

text \<open>\<open>ProfileCreateResponseSchema\<close>: the body of the 201 response.\<close>

record ProfileCreateResponseSchema =
  r_id :: int
  r_user_id :: int
  r_first_name :: unicode
  r_last_name :: unicode
  r_gender :: unicode
  r_date_of_birth :: date
  r_info :: unicode
  r_avatar :: unicode

text \<open>
  \<open>HTTPException(status_code, detail)\<close>. The detail is a plain message, or for the field
  validators a list of entries \<open>{type, loc, msg, input}\<close>.
\<close>

record error_entry =
  e_type :: string
  e_loc :: "string list"
  e_msg :: unicode
  e_input :: unicode

datatype detail = Message string | Entries "error_entry list"

datatype http_exception = HTTPException int detail

fun status_code :: "http_exception \<Rightarrow> int" where
  "status_code (HTTPException c d) = c"

text \<open>
  Modelled from the spec: the tables of the \<open>database\<close> module (\<open>UserGroupEnum\<close>, \<open>UserModel\<close>,
  \<open>UserProfileModel\<close>) are not part of the sources. An account has an identifier, an
  active flag and a group with at least the variant \<open>ADMIN\<close>; \<open>has_group\<close> tests the
  account's group; a profile row has a surrogate identifier assigned at insert, the
  account it belongs to, the five fields and the storage key of the avatar.
\<close>

datatype UserGroupEnum = USER | MODERATOR | ADMIN

record UserModel =
  u_id :: int
  u_is_active :: bool
  u_group :: UserGroupEnum

definition has_group :: "UserModel \<Rightarrow> UserGroupEnum \<Rightarrow> bool" where
  "has_group u g = (u_group u = g)"

record UserProfileModel =
  p_id :: int
  p_user_id :: int
  p_first_name :: unicode
  p_last_name :: unicode
  p_gender :: unicode
  p_date_of_birth :: date
  p_info :: unicode
  p_avatar :: unicode

text \<open>
  The relational store: the two tables and the sequence that assigns the next profile
  identifier. The blob store: the objects by key, the latest upload of a key first.
  \<open>journal\<close> is the history of the writes of both stores, in the order they were made.
\<close>

record database =
  users :: "UserModel list"
  profiles :: "UserProfileModel list"
  profile_seq :: int

datatype store_write = S3Upload unicode string | DbInsert UserProfileModel

record world =
  db :: database
  s3_objects :: "(unicode \<times> string) list"
  journal :: "store_write list"

text \<open>
  A decoded token payload is a JSON object; \<open>payload.get("user_id")\<close> is \<open>map_of\<close> on it.
  Floating-point numbers are left out.
\<close>

datatype jvalue =
    JNull
  | JBool bool
  | JInt int
  | JStr unicode
  | JArr "jvalue list"
  | JObj "(unicode \<times> jvalue) list"

text \<open>Python's truth value of a JSON value, as \<open>not user_id\<close> tests it.\<close>

fun truthy :: "jvalue \<Rightarrow> bool" where
  "truthy JNull = False"
| "truthy (JBool b) = b"
| "truthy (JInt n) = (n \<noteq> 0)"
| "truthy (JStr s) = (s \<noteq> [])"
| "truthy (JArr xs) = (xs \<noteq> [])"
| "truthy (JObj kvs) = (kvs \<noteq> [])"

datatype token_error = TokenExpiredError | InvalidTokenError

text \<open>
  The collaborators that the sources import and do not define, taken as parameters:
  \<^item> \<open>decode_access_token\<close> of the token manager: the payload, or one of its two errors;
  \<^item> \<open>bind_id\<close>: the account identifier that the store compares with \<open>UserModel.id\<close> when
    the subject claim is not an integer (\<open>None\<close>: no row matches);
  \<^item> the four functions of the \<open>validation\<close> module: \<open>Some msg\<close> is \<open>ValueError(msg)\<close>,
    \<open>None\<close> is a normal return;
  \<^item> \<open>upload_file\<close> of the storage client: \<open>Some e\<close> is \<open>S3FileUploadError(e)\<close>, \<open>None\<close> is a
    successful upload; \<open>get_file_url\<close> resolves a key to a URL;
  \<^item> \<open>unicode_lower\<close>: the case mapping of the runtime that \<open>str.lower\<close> applies to a text
    with a code point from U+0100 on.
\<close>

record collaborators =
  decode_access_token :: "unicode \<Rightarrow> token_error + (unicode \<times> jvalue) list"
  bind_id :: "jvalue \<Rightarrow> int option"
  validate_name :: "unicode \<Rightarrow> unicode option"
  validate_gender :: "unicode \<Rightarrow> unicode option"
  validate_birth_date :: "date \<Rightarrow> unicode option"
  validate_image :: "UploadFile \<Rightarrow> unicode option"
  upload_file :: "unicode \<Rightarrow> string \<Rightarrow> unicode option"
  get_file_url :: "unicode \<Rightarrow> unicode"
  unicode_lower :: "unicode \<Rightarrow> unicode"

text \<open>The request: the \<open>Authorization\<close> header, the path parameter and the form.\<close>

record request =
  authorization :: "unicode option"
  path_user_id :: int
  form :: ProfileCreateRequestSchema

section \<open>Field validation: \<open>schemas/profiles.py\<close>\<close>

text \<open>
  Each validator of \<open>ProfileCreateRequestSchema\<close> returns the value to store, or raises
  the \<open>HTTPException\<close> with status 422 and a one-entry detail list.
\<close>

definition field_error :: "string \<Rightarrow> unicode \<Rightarrow> unicode \<Rightarrow> http_exception" where
  "field_error field m v =
     HTTPException 422
       (Entries [\<lparr>e_type = ''value_error'', e_loc = [field], e_msg = m, e_input = v\<rparr>])"

definition validate_first_name :: "collaborators \<Rightarrow> unicode \<Rightarrow> http_exception + unicode" where
  "validate_first_name C v =
     (case validate_name C v of
        Some e \<Rightarrow> Inl (field_error ''first_name'' e v)
      | None \<Rightarrow> Inr (strip (lower (unicode_lower C) v)))"

definition validate_last_name :: "collaborators \<Rightarrow> unicode \<Rightarrow> http_exception + unicode" where
  "validate_last_name C v =
     (case validate_name C v of
        Some e \<Rightarrow> Inl (field_error ''last_name'' e v)
      | None \<Rightarrow> Inr (strip (lower (unicode_lower C) v)))"

definition validate_gender_field :: "collaborators \<Rightarrow> unicode \<Rightarrow> http_exception + unicode" where
  "validate_gender_field C v =
     (case validate_gender C v of
        Some e \<Rightarrow> Inl (field_error ''gender'' e v)
      | None \<Rightarrow> Inr v)"

definition validate_age :: "collaborators \<Rightarrow> date \<Rightarrow> http_exception + date" where
  "validate_age C v =
     (case validate_birth_date C v of
        Some e \<Rightarrow> Inl (field_error ''date_of_birth'' e (date_str v))
      | None \<Rightarrow> Inr v)"

definition validate_info_field :: "unicode \<Rightarrow> http_exception + unicode" where
  "validate_info_field v =
     (let clean_info = strip v
      in if clean_info = []
         then Inl (field_error ''info''
                (lit ''Info field cannot be empty or contain only spaces.'') v)
         else Inr clean_info)"

definition validate_avatar :: "collaborators \<Rightarrow> UploadFile \<Rightarrow> http_exception + UploadFile" where
  "validate_avatar C v =
     (case validate_image C v of
        Some e \<Rightarrow> Inl (field_error ''avatar'' e (filename v))
      | None \<Rightarrow> Inr v)"

text \<open>
  \<open>as_form\<close> builds the instance: the validators run in the order of the fields, and the
  first exception leaves the constructor.
\<close>

definition as_form ::
  "collaborators \<Rightarrow> ProfileCreateRequestSchema \<Rightarrow> http_exception + ProfileCreateRequestSchema" where
  "as_form C f =
     (case validate_first_name C (first_name f) of Inl e \<Rightarrow> Inl e | Inr fn \<Rightarrow>
      case validate_last_name C (last_name f) of Inl e \<Rightarrow> Inl e | Inr ln \<Rightarrow>
      case validate_gender_field C (gender f) of Inl e \<Rightarrow> Inl e | Inr g \<Rightarrow>
      case validate_age C (date_of_birth f) of Inl e \<Rightarrow> Inl e | Inr b \<Rightarrow>
      case validate_info_field (info f) of Inl e \<Rightarrow> Inl e | Inr i \<Rightarrow>
      case validate_avatar C (avatar f) of Inl e \<Rightarrow> Inl e | Inr a \<Rightarrow>
        Inr \<lparr>first_name = fn, last_name = ln, gender = g, date_of_birth = b, info = i,
             avatar = a\<rparr>)"

section \<open>Identity resolution: \<open>get_current_user\<close>\<close>

definition unauthorized :: "string \<Rightarrow> http_exception" where
  "unauthorized m = HTTPException 401 (Message m)"

text \<open>An exception that no handler catches: the framework answers 500.\<close>

definition unhandled :: http_exception where
  "unhandled = HTTPException 500 (Message ''Internal Server Error'')"

definition select_user :: "database \<Rightarrow> int \<Rightarrow> UserModel option" where
  "select_user d i = find (\<lambda>u. u_id u = i) (users d)"

definition select_user_by_claim :: "collaborators \<Rightarrow> database \<Rightarrow> jvalue \<Rightarrow> UserModel option" where
  "select_user_by_claim C d v =
     (case v of
        JInt n \<Rightarrow> select_user d n
      | _ \<Rightarrow> (case bind_id C v of None \<Rightarrow> None | Some n \<Rightarrow> select_user d n))"

text \<open>
  \<open>auth_header.split("Bearer ")[1]\<close>: the second piece of the split; \<open>None\<close> stands for
  the \<open>IndexError\<close> of a list with fewer than two pieces.
\<close>

definition bearer_token :: "unicode \<Rightarrow> unicode option" where
  "bearer_token h =
     (case split h (lit ''Bearer '') of
        Some (x # token # rest) \<Rightarrow> Some token
      | _ \<Rightarrow> None)"

definition get_current_user ::
  "collaborators \<Rightarrow> database \<Rightarrow> unicode option \<Rightarrow> http_exception + UserModel" where
  "get_current_user C d auth_header =
     (case auth_header of
        None \<Rightarrow> Inl (unauthorized ''Authorization header is missing'')
      | Some h \<Rightarrow>
          if h = [] then Inl (unauthorized ''Authorization header is missing'')
          else if \<not> prefix (lit ''Bearer '') h
          then Inl (unauthorized
                 (''Invalid Authorization header format. Expected '' @ [CHR 0x27] @
                  ''Bearer <token>'' @ [CHR 0x27]))
          else
            (case bearer_token h of
               None \<Rightarrow> Inl unhandled
             | Some token \<Rightarrow>
                 (case decode_access_token C token of
                    Inl TokenExpiredError \<Rightarrow> Inl (unauthorized ''Token has expired.'')
                  | Inl InvalidTokenError \<Rightarrow> Inl (unauthorized ''Invalid token.'')
                  | Inr payload \<Rightarrow>
                      (case map_of payload (lit ''user_id'') of
                         None \<Rightarrow> Inl (unauthorized ''Invalid token.'')
                       | Some user_id \<Rightarrow>
                           if \<not> truthy user_id then Inl (unauthorized ''Invalid token.'')
                           else
                             (case select_user_by_claim C d user_id of
                                None \<Rightarrow> Inl (unauthorized ''User not found or not active.'')
                              | Some user \<Rightarrow>
                                  if \<not> u_is_active user
                                  then Inl (unauthorized ''User not found or not active.'')
                                  else Inr user)))))"

section \<open>The route: \<open>create_profile\<close>\<close>

definition select_profile :: "database \<Rightarrow> UserModel \<Rightarrow> UserProfileModel option" where
  "select_profile d u = find (\<lambda>p. p_user_id p = u_id u) (profiles d)"

definition avatar_key :: "int \<Rightarrow> unicode \<Rightarrow> unicode" where
  "avatar_key i name = lit ''avatars/'' @ str_int i @ lit ''_'' @ name"

definition s3_put :: "unicode \<Rightarrow> string \<Rightarrow> world \<Rightarrow> world" where
  "s3_put k data w =
     w\<lparr>s3_objects := (k, data) # s3_objects w, journal := journal w @ [S3Upload k data]\<rparr>"

text \<open>
  \<open>db.add(profile)\<close> and \<open>db.commit()\<close>: the row gets the next identifier of the sequence.
\<close>

definition new_profile ::
  "database \<Rightarrow> ProfileCreateRequestSchema \<Rightarrow> unicode \<Rightarrow> int \<Rightarrow> UserProfileModel" where
  "new_profile d pd path uid =
     \<lparr>p_id = profile_seq d, p_user_id = uid,
      p_first_name = first_name pd, p_last_name = last_name pd, p_gender = gender pd,
      p_date_of_birth = date_of_birth pd, p_info = info pd, p_avatar = path\<rparr>"

definition db_insert :: "UserProfileModel \<Rightarrow> world \<Rightarrow> world" where
  "db_insert row w =
     w\<lparr>db := (db w)\<lparr>profiles := profiles (db w) @ [row], profile_seq := profile_seq (db w) + 1\<rparr>,
       journal := journal w @ [DbInsert row]\<rparr>"

type_synonym response = "http_exception + ProfileCreateResponseSchema"

definition create_profile ::
  "collaborators \<Rightarrow> world \<Rightarrow> int \<Rightarrow> ProfileCreateRequestSchema \<Rightarrow> UserModel \<Rightarrow> response \<times> world" where
  "create_profile C w user_id profile_data current_user =
     (case select_user (db w) user_id of
        None \<Rightarrow> (Inl (unauthorized ''User not found or not active.''), w)
      | Some user \<Rightarrow>
          if \<not> u_is_active user
          then (Inl (unauthorized ''User not found or not active.''), w)
          else if user_id \<noteq> u_id current_user \<and> \<not> has_group current_user ADMIN
          then (Inl (HTTPException 403
                  (Message (''You don'' @ [CHR 0x27] @ ''t have permission to edit this profile.''))), w)
          else if select_profile (db w) user \<noteq> None
          then (Inl (HTTPException 400 (Message ''User already has a profile.'')), w)
          else
            (let avatar_byte_data = content (avatar profile_data);
                 avatar_path = avatar_key (u_id user) (filename (avatar profile_data))
             in case upload_file C avatar_path avatar_byte_data of
                  Some e \<Rightarrow>
                    (Inl (HTTPException 500
                       (Message ''Failed to upload avatar. Please try again later.'')), w)
                | None \<Rightarrow>
                    (let w1 = s3_put avatar_path avatar_byte_data w;
                         profile = new_profile (db w1) profile_data avatar_path (u_id user);
                         w2 = db_insert profile w1;
                         avatar_url = get_file_url C (p_avatar profile)
                     in (Inr \<lparr>r_id = p_id profile, r_user_id = p_user_id profile,
                              r_first_name = p_first_name profile,
                              r_last_name = p_last_name profile,
                              r_gender = p_gender profile,
                              r_date_of_birth = p_date_of_birth profile,
                              r_info = p_info profile,
                              r_avatar = avatar_url\<rparr>, w2))))"

text \<open>
  The request as the framework serves it. The dependencies of the route are resolved in
  the order of its parameters, \<open>profile_data\<close> (\<open>as_form\<close>) and then \<open>current_user\<close>
  (\<open>get_current_user\<close>), before the body of \<open>create_profile\<close> runs; an \<open>HTTPException\<close> raised
  by a dependency is the response, and the body is not called. A successful return has
  the status 201 of the route.
\<close>

definition handle_request :: "collaborators \<Rightarrow> world \<Rightarrow> request \<Rightarrow> response \<times> world" where
  "handle_request C w req =
     (case as_form C (form req) of
        Inl e \<Rightarrow> (Inl e, w)
      | Inr profile_data \<Rightarrow>
          (case get_current_user C (db w) (authorization req) of
             Inl e \<Rightarrow> (Inl e, w)
           | Inr current_user \<Rightarrow>
               create_profile C w (path_user_id req) profile_data current_user))"

fun response_status :: "response \<Rightarrow> int" where
  "response_status (Inl e) = status_code e"
| "response_status (Inr body) = 201"

section \<open>The stages of a request, as the specification names them\<close>

text \<open>
  The target-existence check, the uniqueness check and the authorization check of the
  specification, each as a predicate on the store and the path parameter.
\<close>

definition target_active :: "database \<Rightarrow> int \<Rightarrow> bool" where
  "target_active d uid = (case select_user d uid of None \<Rightarrow> False | Some u \<Rightarrow> u_is_active u)"

definition target_has_profile :: "database \<Rightarrow> int \<Rightarrow> bool" where
  "target_has_profile d uid =
     (case select_user d uid of None \<Rightarrow> False | Some u \<Rightarrow> select_profile d u \<noteq> None)"

definition caller_permitted :: "UserModel \<Rightarrow> int \<Rightarrow> bool" where
  "caller_permitted cu uid = (uid = u_id cu \<or> has_group cu ADMIN)"

text \<open>
  All five stages before the commit succeed: field validation, identity resolution, the
  target exists and is active, the caller may act on it, and it has no profile yet.
\<close>

definition checks_pass :: "collaborators \<Rightarrow> world \<Rightarrow> request \<Rightarrow> bool" where
  "checks_pass C w req =
     (case as_form C (form req) of
        Inl e \<Rightarrow> False
      | Inr pd \<Rightarrow>
          (case get_current_user C (db w) (authorization req) of
             Inl e \<Rightarrow> False
           | Inr cu \<Rightarrow>
               target_active (db w) (path_user_id req) \<and>
               caller_permitted cu (path_user_id req) \<and>
               \<not> target_has_profile (db w) (path_user_id req)))"

text \<open>
  The cases in which identity resolution fails, as the specification lists them: the
  header is absent; it does not start with \<open>Bearer \<close>; the token subsystem reports expiry
  or another invalidity; the payload lacks the subject identifier; no active account
  exists for the subject identifier.
\<close>

definition listed_auth_failure :: "collaborators \<Rightarrow> database \<Rightarrow> unicode option \<Rightarrow> bool" where
  "listed_auth_failure C d auth_header =
     (case auth_header of
        None \<Rightarrow> True
      | Some h \<Rightarrow>
          \<not> prefix (lit ''Bearer '') h \<or>
          (case bearer_token h of
             None \<Rightarrow> False
           | Some token \<Rightarrow>
               (case decode_access_token C token of
                  Inl e \<Rightarrow> True
                | Inr payload \<Rightarrow>
                    (case map_of payload (lit ''user_id'') of
                       None \<Rightarrow> True
                     | Some v \<Rightarrow>
                         (case select_user_by_claim C d v of
                            None \<Rightarrow> True
                          | Some u \<Rightarrow> \<not> u_is_active u)))))"

text \<open>The same list, with one more case: the subject identifier is present and falsy.\<close>

definition auth_failure :: "collaborators \<Rightarrow> database \<Rightarrow> unicode option \<Rightarrow> bool" where
  "auth_failure C d auth_header =
     (case auth_header of
        None \<Rightarrow> True
      | Some h \<Rightarrow>
          \<not> prefix (lit ''Bearer '') h \<or>
          (case bearer_token h of
             None \<Rightarrow> False
           | Some token \<Rightarrow>
               (case decode_access_token C token of
                  Inl e \<Rightarrow> True
                | Inr payload \<Rightarrow>
                    (case map_of payload (lit ''user_id'') of
                       None \<Rightarrow> True
                     | Some v \<Rightarrow>
                         \<not> truthy v \<or>
                         (case select_user_by_claim C d v of
                            None \<Rightarrow> True
                          | Some u \<Rightarrow> \<not> u_is_active u)))))"

text \<open>
  Modelled from the spec: the storage client is not part of the sources; the blob store
  resolves a key to a publicly fetchable URL. A URL starts with a scheme, made of letters,
  digits, \<open>+\<close>, \<open>-\<close> and \<open>.\<close>, followed by \<open>://\<close>.
\<close>

definition scheme_cp :: "nat \<Rightarrow> bool" where
  "scheme_cp c =
     ((0x41 \<le> c \<and> c \<le> 0x5A) \<or> (0x61 \<le> c \<and> c \<le> 0x7A) \<or> (0x30 \<le> c \<and> c \<le> 0x39) \<or>
      c = 0x2B \<or> c = 0x2D \<or> c = 0x2E)"

definition is_url :: "unicode \<Rightarrow> bool" where
  "is_url u =
     (let scheme = takeWhile scheme_cp u
      in scheme \<noteq> [] \<and> prefix (lit ''://'') (drop (length scheme) u))"

section \<open>An example deployment\<close>

text \<open>
  Stand-ins for the collaborators, a store with six accounts (account 7 has a profile,
  account 8 is deactivated) and a valid submission, on which the model is evaluated.
\<close>

definition example_collaborators :: collaborators where
  "example_collaborators =
     \<lparr>decode_access_token =
        (\<lambda>t. if t = lit ''expired'' then Inl TokenExpiredError
             else if t = lit ''admin'' then Inr [(lit ''user_id'', JInt 1)]
             else if t = lit ''user5'' then Inr [(lit ''user_id'', JInt 5)]
             else if t = lit ''zero'' then Inr [(lit ''user_id'', JInt 0)]
             else if t = lit ''nosub'' then Inr [(lit ''exp'', JInt 1700000000)]
             else Inl InvalidTokenError),
      bind_id = (\<lambda>v. None),
      validate_name = (\<lambda>s. if s = [] then Some (lit ''Name must not be empty'') else None),
      validate_gender = (\<lambda>s. if s = lit ''man'' \<or> s = lit ''woman'' then None else Some (lit ''Unknown gender'')),
      validate_birth_date = (\<lambda>d. if year d < 1900 then Some (lit ''Invalid birth date'') else None),
      validate_image = (\<lambda>f. if take 4 (content f) = ''JPEG'' then None else Some (lit ''Invalid image format'')),
      upload_file = (\<lambda>k data. None),
      get_file_url = (\<lambda>k. lit ''http://storage.local/'' @ k),
      unicode_lower = (\<lambda>s. s)\<rparr>"

definition example_world :: world where
  "example_world =
     \<lparr>db = \<lparr>users = [\<lparr>u_id = 1, u_is_active = True, u_group = ADMIN\<rparr>,
                      \<lparr>u_id = 2, u_is_active = True, u_group = USER\<rparr>,
                      \<lparr>u_id = 5, u_is_active = True, u_group = USER\<rparr>,
                      \<lparr>u_id = 7, u_is_active = True, u_group = USER\<rparr>,
                      \<lparr>u_id = 8, u_is_active = False, u_group = USER\<rparr>,
                      \<lparr>u_id = 0, u_is_active = True, u_group = USER\<rparr>],
            profiles = [\<lparr>p_id = 1, p_user_id = 7, p_first_name = lit ''grace'', p_last_name = lit ''hopper'',
                         p_gender = lit ''woman'',
                         p_date_of_birth = \<lparr>year = 1906, month = 12, day = 9\<rparr>,
                         p_info = lit ''Compilers'', p_avatar = lit ''avatars/7_grace.jpg''\<rparr>],
            profile_seq = 2\<rparr>,
      s3_objects = [(lit ''avatars/7_grace.jpg'', ''JPEG7'')],
      journal = []\<rparr>"

definition example_form :: ProfileCreateRequestSchema where
  "example_form =
     \<lparr>first_name = lit ''  Ada '', last_name = lit ''Lovelace'', gender = lit ''woman'',
      date_of_birth = \<lparr>year = 1990, month = 12, day = 10\<rparr>, info = lit '' Analyst '',
      avatar = \<lparr>filename = lit ''ada.jpg'', content = ''JPEGDATA''\<rparr>\<rparr>"

definition example_request :: request where
  "example_request =
     \<lparr>authorization = Some (lit ''Bearer admin''), path_user_id = 2, form = example_form\<rparr>"

definition failing_storage :: collaborators where
  "failing_storage = example_collaborators\<lparr>upload_file := (\<lambda>k data. Some (lit ''connection reset''))\<rparr>"

definition example_row :: UserProfileModel where
  "example_row =
     \<lparr>p_id = 2, p_user_id = 2, p_first_name = lit ''ada'', p_last_name = lit ''lovelace'',
      p_gender = lit ''woman'', p_date_of_birth = \<lparr>year = 1990, month = 12, day = 10\<rparr>,
      p_info = lit ''Analyst'', p_avatar = lit ''avatars/2_ada.jpg''\<rparr>"

definition example_body :: ProfileCreateResponseSchema where
  "example_body =
     \<lparr>r_id = 2, r_user_id = 2, r_first_name = lit ''ada'', r_last_name = lit ''lovelace'',
      r_gender = lit ''woman'', r_date_of_birth = \<lparr>year = 1990, month = 12, day = 10\<rparr>,
      r_info = lit ''Analyst'', r_avatar = lit ''http://storage.local/avatars/2_ada.jpg''\<rparr>"

definition example_after :: world where
  "example_after = db_insert example_row (s3_put (lit ''avatars/2_ada.jpg'') ''JPEGDATA'' example_world)"

definition user5 :: UserModel where
  "user5 = \<lparr>u_id = 5, u_is_active = True, u_group = USER\<rparr>"

section \<open>Auxiliary facts\<close>

lemmas validator_defs = validate_first_name_def validate_last_name_def validate_gender_field_def
  validate_age_def validate_info_field_def validate_avatar_def

lemmas target_defs = target_active_def target_has_profile_def caller_permitted_def

lemmas model_defs = handle_request_def as_form_def validator_defs get_current_user_def
  bearer_token_def split_def create_profile_def select_user_def select_user_by_claim_def
  select_profile_def has_group_def avatar_key_def str_int_def dec.simps digit_def s3_put_def
  db_insert_def new_profile_def strip_def lower_def lower_cp_def is_space_def lit_def
  field_error_def unauthorized_def unhandled_def date_str_def zfill_def Let_def

lemmas example_defs = example_collaborators_def example_world_def example_form_def
  example_request_def failing_storage_def example_row_def example_body_def example_after_def
  user5_def lit_def

lemma split_at_not_Nil: "split_at d ds acc s \<noteq> []"
  by (induction d ds acc s rule: split_at.induct) auto

lemma bearer_token_prefix:
  assumes "prefix (lit ''Bearer '') h"
  shows "\<exists>t. bearer_token h = Some t"
proof -
  from assms obtain r where h: "h = lit ''Bearer '' @ r" by (auto simp: prefix_def)
  obtain y ys where "split_at 66 [101, 97, 114, 101, 114, 32] [] r = y # ys"
    using split_at_not_Nil by (cases "split_at 66 [101, 97, 114, 101, 114, 32] [] r") auto
  then show ?thesis by (simp add: h bearer_token_def split_def lit_def)
qed

lemma avatar_key_not_url: "\<not> is_url (avatar_key i name)"
  by (simp add: is_url_def avatar_key_def lit_def scheme_cp_def)

lemma select_user_id: "select_user d i = Some u \<Longrightarrow> u_id u = i"
  by (auto simp: select_user_def find_Some_iff)

lemma as_form_Inr:
  assumes "as_form C f = Inr pd"
  shows "first_name pd = strip (lower (unicode_lower C) (first_name f))"
    and "last_name pd = strip (lower (unicode_lower C) (last_name f))"
    and "gender pd = gender f"
    and "date_of_birth pd = date_of_birth f"
    and "info pd = strip (info f)"
    and "avatar pd = avatar f"
  using assms
  by (auto simp: as_form_def validator_defs Let_def split: sum.splits option.splits if_splits)

lemma status_field_error: "status_code (field_error f m v) = 422"
  by (simp add: field_error_def)

lemma as_form_Inl:
  assumes "as_form C f = Inl e"
  shows "status_code e = 422"
  using assms
  by (auto simp: as_form_def validator_defs Let_def status_field_error split: sum.splits option.splits if_splits)

lemma create_profile_Inr:
  assumes "create_profile C w uid pd cu = (Inr body, w')"
  shows "\<exists>u. select_user (db w) uid = Some u \<and> u_is_active u \<and> (uid = u_id cu \<or> has_group cu ADMIN) \<and>
        select_profile (db w) u = None \<and>
        upload_file C (avatar_key uid (filename (avatar pd))) (content (avatar pd)) = None \<and>
        w' = db_insert (new_profile (db w) pd (avatar_key uid (filename (avatar pd))) uid)
            (s3_put (avatar_key uid (filename (avatar pd))) (content (avatar pd)) w) \<and>
        body = \<lparr>r_id = profile_seq (db w), r_user_id = uid, r_first_name = first_name pd,
                 r_last_name = last_name pd, r_gender = gender pd,
                 r_date_of_birth = date_of_birth pd, r_info = info pd,
                 r_avatar = get_file_url C (avatar_key uid (filename (avatar pd)))\<rparr>"
  using assms
  by (auto simp: create_profile_def Let_def s3_put_def new_profile_def dest!: select_user_id split: option.splits if_splits)

lemma handle_request_Inr:
  assumes "handle_request C w req = (Inr body, w')"
  shows "\<exists>pd cu. as_form C (form req) = Inr pd \<and>
           get_current_user C (db w) (authorization req) = Inr cu \<and>
           create_profile C w (path_user_id req) pd cu = (Inr body, w')"
  using assms by (auto simp: handle_request_def split: sum.splits)

lemma handle_request_accepted:
  assumes "handle_request C w req = (Inr body, w')"
  defines "k \<equiv> avatar_key (path_user_id req) (filename (avatar (form req)))"
  defines "row \<equiv> \<lparr>p_id = profile_seq (db w), p_user_id = path_user_id req,
                   p_first_name = strip (lower (unicode_lower C) (first_name (form req))),
                   p_last_name = strip (lower (unicode_lower C) (last_name (form req))),
                   p_gender = gender (form req),
                   p_date_of_birth = date_of_birth (form req),
                   p_info = strip (info (form req)), p_avatar = k\<rparr>"
  shows "w' = db_insert row (s3_put k (content (avatar (form req))) w)"
    and "body = \<lparr>r_id = p_id row, r_user_id = p_user_id row, r_first_name = p_first_name row,
                 r_last_name = p_last_name row, r_gender = p_gender row,
                 r_date_of_birth = p_date_of_birth row, r_info = p_info row,
                 r_avatar = get_file_url C k\<rparr>"
    and "checks_pass C w req"
proof -
  from handle_request_Inr [OF assms(1)] obtain pd cu where
    f: "as_form C (form req) = Inr pd" and
    g: "get_current_user C (db w) (authorization req) = Inr cu" and
    c: "create_profile C w (path_user_id req) pd cu = (Inr body, w')" by blast
  note pd = as_form_Inr [OF f]
  from create_profile_Inr [OF c] obtain u where
    u: "select_user (db w) (path_user_id req) = Some u" "u_is_active u"
       "path_user_id req = u_id cu \<or> has_group cu ADMIN" "select_profile (db w) u = None" and
    w': "w' = db_insert (new_profile (db w) pd (avatar_key (path_user_id req) (filename (avatar pd))) (path_user_id req))
            (s3_put (avatar_key (path_user_id req) (filename (avatar pd))) (content (avatar pd)) w)" and
    b: "body = \<lparr>r_id = profile_seq (db w), r_user_id = path_user_id req, r_first_name = first_name pd,
                 r_last_name = last_name pd, r_gender = gender pd,
                 r_date_of_birth = date_of_birth pd, r_info = info pd,
                 r_avatar = get_file_url C (avatar_key (path_user_id req) (filename (avatar pd)))\<rparr>"
    by blast
  have av: "avatar pd = avatar (form req)" by (rule pd)
  have np: "new_profile (db w) pd k (path_user_id req) = row"
    by (simp add: new_profile_def row_def pd)
  show "w' = db_insert row (s3_put k (content (avatar (form req))) w)"
    using w' np by (simp add: av k_def)
  show "body = \<lparr>r_id = p_id row, r_user_id = p_user_id row, r_first_name = p_first_name row,
                 r_last_name = p_last_name row, r_gender = p_gender row,
                 r_date_of_birth = p_date_of_birth row, r_info = p_info row,
                 r_avatar = get_file_url C k\<rparr>"
    using b by (simp add: row_def k_def pd)
  show "checks_pass C w req"
    using f g u by (simp add: checks_pass_def target_defs)
qed

lemma get_current_user_cases:
  "(auth_failure C d a \<longrightarrow> (\<exists>m. get_current_user C d a = Inl (HTTPException 401 (Message m)))) \<and>
   (\<not> auth_failure C d a \<longrightarrow> (\<exists>u. get_current_user C d a = Inr u \<and> u_is_active u))"
proof (cases a)
  case None
  then show ?thesis by (simp add: auth_failure_def get_current_user_def unauthorized_def)
next
  case (Some h)
  show ?thesis
  proof (cases "prefix (lit ''Bearer '') h")
    case False
    then show ?thesis using Some
      by (simp add: auth_failure_def get_current_user_def unauthorized_def)
  next
    case True
    then obtain t where t: "bearer_token h = Some t" using bearer_token_prefix by blast
    from True have ne: "h \<noteq> []" by (auto simp: lit_def)
    show ?thesis using Some True t ne
      by (auto simp: auth_failure_def get_current_user_def unauthorized_def
               split: sum.splits option.splits token_error.splits)
  qed
qed

lemma handle_request_auth_fails:
  "get_current_user C (db w) (authorization req) = Inl e \<Longrightarrow> snd (handle_request C w req) = w"
  by (simp add: handle_request_def split: sum.splits)

lemma handle_request_invalid:
  "as_form C (form req) = Inl e \<Longrightarrow> handle_request C w req = (Inl e, w)"
  by (simp add: handle_request_def)

lemma profiles_after:
  "profiles (db (db_insert row (s3_put k data w))) = profiles (db w) @ [row]"
  by (simp add: db_insert_def s3_put_def)

lemma example_accepted:
  "handle_request example_collaborators example_world example_request =
     (Inr example_body, example_after)"
  by (simp add: model_defs example_defs)

section \<open>Claims about the whole request\<close>

text \<open>
  Claim C1. No write to the blob store and no insert into the relational store happens
  unless field validation, identity resolution, the target-existence check, the
  authorization check and the uniqueness check have all succeeded: when one of them
  fails the world after the request is the world before it. When the world changes, all
  five have succeeded and the request made exactly two writes, the upload of the avatar
  and then the insert of the profile row.
\<close>

theorem no_write_before_checks:
  "(\<not> checks_pass C w req \<longrightarrow> snd (handle_request C w req) = w) \<and>
   (snd (handle_request C w req) = w \<or>
    (checks_pass C w req \<and>
     (\<exists>k data row. snd (handle_request C w req) = db_insert row (s3_put k data w) \<and>
        journal (snd (handle_request C w req)) = journal w @ [S3Upload k data, DbInsert row])))"
proof (cases "as_form C (form req)")
  case (Inl e)
  then show ?thesis by (simp add: handle_request_def checks_pass_def)
next
  case (Inr pd)
  show ?thesis
  proof (cases "get_current_user C (db w) (authorization req)")
    case (Inl e)
    then show ?thesis using Inr by (simp add: handle_request_def checks_pass_def)
  next
    case cu: (Inr cu)
    have hr: "handle_request C w req = create_profile C w (path_user_id req) pd cu"
      using Inr cu by (simp add: handle_request_def)
    have cp: "checks_pass C w req =
       (target_active (db w) (path_user_id req) \<and> caller_permitted cu (path_user_id req) \<and>
        \<not> target_has_profile (db w) (path_user_id req))"
      using Inr cu by (simp add: checks_pass_def)
    show ?thesis
      unfolding hr cp
      by (auto simp: create_profile_def target_defs Let_def s3_put_def db_insert_def
               split: option.splits)
  qed
qed

theorem no_write_before_checks_witness:
  "\<not> checks_pass example_collaborators example_world (example_request\<lparr>path_user_id := 7\<rparr>) \<and>
   snd (handle_request example_collaborators example_world (example_request\<lparr>path_user_id := 7\<rparr>))
     = example_world \<and>
   checks_pass example_collaborators example_world example_request \<and>
   journal (snd (handle_request example_collaborators example_world example_request)) =
     [S3Upload (lit ''avatars/2_ada.jpg'') ''JPEGDATA'', DbInsert example_row]"
proof -
  have bad: "\<not> checks_pass example_collaborators example_world (example_request\<lparr>path_user_id := 7\<rparr>)"
    by (simp add: checks_pass_def target_defs model_defs example_defs)
  have good: "checks_pass example_collaborators example_world example_request"
    by (simp add: checks_pass_def target_defs model_defs example_defs)
  have j: "journal (snd (handle_request example_collaborators example_world example_request)) =
     [S3Upload (lit ''avatars/2_ada.jpg'') ''JPEGDATA'', DbInsert example_row]"
    by (simp add: example_accepted) (simp add: example_defs db_insert_def s3_put_def)
  from bad
    no_write_before_checks [of example_collaborators example_world
      "example_request\<lparr>path_user_id := 7\<rparr>"]
  have "snd (handle_request example_collaborators example_world (example_request\<lparr>path_user_id := 7\<rparr>))
     = example_world" by blast
  with bad good j show ?thesis by blast
qed

text \<open>
  Claim C2. The body of the route makes its three checks in a fixed order. The status
  is 401 exactly when the target account is missing or inactive; it is 403 exactly when
  the target is active and the caller is neither the target nor an administrator; it is
  400 exactly when the target is active, the caller is permitted and the target already
  has a profile. So a caller without the administrator group who targets another
  account that already has a profile gets 403, not 400.
\<close>

theorem check_order:
  "(response_status (fst (create_profile C w uid pd cu)) = 401) =
      (\<not> target_active (db w) uid) \<and>
   (response_status (fst (create_profile C w uid pd cu)) = 403) =
      (target_active (db w) uid \<and> \<not> caller_permitted cu uid) \<and>
   (response_status (fst (create_profile C w uid pd cu)) = 400) =
      (target_active (db w) uid \<and> caller_permitted cu uid \<and> target_has_profile (db w) uid) \<and>
   (target_active (db w) uid \<and> \<not> caller_permitted cu uid \<and> target_has_profile (db w) uid
      \<longrightarrow> response_status (fst (create_profile C w uid pd cu)) = 403)"
  by (auto simp: create_profile_def target_defs unauthorized_def Let_def split: option.splits)

theorem check_order_witness:
  "target_active (db example_world) 7 \<and> \<not> caller_permitted user5 7 \<and>
   target_has_profile (db example_world) 7 \<and>
   response_status (fst (create_profile example_collaborators example_world 7 example_form user5))
     = 403"
proof -
  have h: "target_active (db example_world) 7 \<and> \<not> caller_permitted user5 7 \<and>
           target_has_profile (db example_world) 7"
    by (simp add: target_defs model_defs example_defs)
  with check_order [of example_collaborators example_world 7 example_form user5]
  show ?thesis by blast
qed

text \<open>
  Claim C3. When every check has passed and the blob store refuses the upload of the
  avatar, the response is the status 500 with the fixed message of the route, whatever
  the storage error says, the world is unchanged, and the target account still has no
  profile row.
\<close>

theorem upload_failure:
  assumes "as_form C (form req) = Inr pd"
    and "get_current_user C (db w) (authorization req) = Inr cu"
    and "target_active (db w) (path_user_id req)"
    and "caller_permitted cu (path_user_id req)"
    and "\<not> target_has_profile (db w) (path_user_id req)"
    and "upload_file C (avatar_key (path_user_id req) (filename (avatar (form req))))
           (content (avatar (form req))) = Some e"
  shows "handle_request C w req =
           (Inl (HTTPException 500 (Message ''Failed to upload avatar. Please try again later.'')), w) \<and>
         \<not> target_has_profile (db (snd (handle_request C w req))) (path_user_id req)"
proof -
  have av: "avatar pd = avatar (form req)" using assms(1) by (rule as_form_Inr)
  have "handle_request C w req =
           (Inl (HTTPException 500 (Message ''Failed to upload avatar. Please try again later.'')), w)"
    using assms(2-6)
    by (auto simp: handle_request_def assms(1) create_profile_def target_defs av Let_def
             dest!: select_user_id split: option.splits)
  then show ?thesis using assms(5) by simp
qed

theorem upload_failure_witness:
  "upload_file failing_storage (avatar_key 2 (lit ''ada.jpg'')) ''JPEGDATA'' = Some (lit ''connection reset'') \<and>
   handle_request failing_storage example_world example_request =
     (Inl (HTTPException 500 (Message ''Failed to upload avatar. Please try again later.'')),
      example_world) \<and>
   \<not> target_has_profile (db example_world) 2"
proof -
  have f: "as_form failing_storage (form example_request) =
             Inr (example_form\<lparr>first_name := lit ''ada'', last_name := lit ''lovelace'', info := lit ''Analyst''\<rparr>)"
    by (simp add: model_defs example_defs)
  have g: "get_current_user failing_storage (db example_world) (authorization example_request) =
             Inr \<lparr>u_id = 1, u_is_active = True, u_group = ADMIN\<rparr>"
    by (simp add: model_defs example_defs)
  have t: "target_active (db example_world) (path_user_id example_request)"
    by (simp add: target_defs model_defs example_defs)
  have c: "caller_permitted \<lparr>u_id = 1, u_is_active = True, u_group = ADMIN\<rparr>
             (path_user_id example_request)"
    by (simp add: target_defs model_defs example_defs)
  have n: "\<not> target_has_profile (db example_world) (path_user_id example_request)"
    by (simp add: target_defs model_defs example_defs)
  have u: "upload_file failing_storage
             (avatar_key (path_user_id example_request) (filename (avatar (form example_request))))
             (content (avatar (form example_request))) = Some (lit ''connection reset'')"
    by (simp add: example_defs)
  from upload_failure [OF f g t c n u] n u show ?thesis
    by (simp add: example_request_def example_form_def)
qed

text \<open>
  Claim C4, as amended. For a request whose caller has been authenticated, the status
  is 403 exactly when the payload passes field validation, the target account exists and
  is active, and the caller is neither the target nor an administrator; the world is
  then unchanged. A payload that fails validation is answered with the 422 of the
  validator, before the authorization check. In particular a caller who is the target,
  or an administrator, is never answered 403.
\<close>

theorem forbidden_iff:
  assumes "get_current_user C (db w) (authorization req) = Inr cu"
  shows "(response_status (fst (handle_request C w req)) = 403) =
           ((\<exists>pd. as_form C (form req) = Inr pd) \<and> target_active (db w) (path_user_id req) \<and>
            \<not> caller_permitted cu (path_user_id req)) \<and>
         ((\<exists>pd. as_form C (form req) = Inr pd) \<and> target_active (db w) (path_user_id req) \<and>
            \<not> caller_permitted cu (path_user_id req) \<longrightarrow> snd (handle_request C w req) = w) \<and>
         (\<forall>e. as_form C (form req) = Inl e \<longrightarrow>
            handle_request C w req = (Inl e, w) \<and> status_code e = 422)"
proof (cases "as_form C (form req)")
  case (Inl e)
  then show ?thesis using as_form_Inl [OF Inl]
    by (simp add: handle_request_def)
next
  case (Inr pd)
  then show ?thesis using assms
    by (auto simp: handle_request_def create_profile_def target_defs unauthorized_def Let_def
             split: option.splits)
qed

theorem forbidden_iff_witness:
  "get_current_user example_collaborators (db example_world) (Some (lit ''Bearer user5'')) = Inr user5 \<and>
   target_active (db example_world) 2 \<and> \<not> caller_permitted user5 2 \<and>
   response_status (fst (handle_request example_collaborators example_world
     (example_request\<lparr>authorization := Some (lit ''Bearer user5'')\<rparr>))) = 403"
proof -
  have g: "get_current_user example_collaborators (db example_world)
             (authorization (example_request\<lparr>authorization := Some (lit ''Bearer user5'')\<rparr>)) = Inr user5"
    by (simp add: model_defs example_defs)
  have f: "as_form example_collaborators (form (example_request\<lparr>authorization := Some (lit ''Bearer user5'')\<rparr>)) =
             Inr (example_form\<lparr>first_name := lit ''ada'', last_name := lit ''lovelace'', info := lit ''Analyst''\<rparr>)"
    by (simp add: model_defs example_defs)
  have t: "target_active (db example_world) 2 \<and> \<not> caller_permitted user5 2"
    by (simp add: target_defs model_defs example_defs)
  have p: "path_user_id (example_request\<lparr>authorization := Some (lit ''Bearer user5'')\<rparr>) = 2"
    by (simp add: example_defs)
  from forbidden_iff [OF g] f t p
  have "response_status (fst (handle_request example_collaborators example_world
     (example_request\<lparr>authorization := Some (lit ''Bearer user5'')\<rparr>))) = 403"
    by simp
  with g t show ?thesis by simp
qed

text \<open>
  The claim as the specification states it fails: account 5, without the administrator
  group, submits for the active account 2 a form whose \<open>info\<close> is blank, and the answer is
  422, not 403.
\<close>

theorem forbidden_counterexample:
  "get_current_user example_collaborators (db example_world) (Some (lit ''Bearer user5'')) = Inr user5 \<and>
   target_active (db example_world) 2 \<and>
   \<not> caller_permitted user5 2 \<and>
   response_status (fst (handle_request example_collaborators example_world
     \<lparr>authorization = Some (lit ''Bearer user5''), path_user_id = 2,
      form = example_form\<lparr>info := lit ''   ''\<rparr>\<rparr>)) = 422"
  by (simp add: model_defs example_defs target_defs)

section \<open>Claims about identity resolution\<close>

text \<open>
  Claim C5, as amended. \<open>get_current_user\<close> fails, always with the status 401, in exactly
  these cases: the header is absent or empty; it does not start with \<open>Bearer \<close>; the
  token subsystem reports expiry or another invalidity; the payload lacks the subject
  identifier or holds a falsy one; no active account exists for the subject identifier.
  In every other case it returns an account. Whenever it fails, the request leaves the
  world unchanged.
\<close>

theorem identity_resolution_cases:
  "(auth_failure C d a \<longrightarrow> (\<exists>m. get_current_user C d a = Inl (HTTPException 401 (Message m)))) \<and>
   (\<not> auth_failure C d a \<longrightarrow> (\<exists>u. get_current_user C d a = Inr u)) \<and>
   (auth_failure C (db w) (authorization req) \<longrightarrow> snd (handle_request C w req) = w)"
  using get_current_user_cases [of C d a] get_current_user_cases [of C "db w" "authorization req"]
    handle_request_auth_fails [of C w req]
  by blast

theorem identity_resolution_cases_witness:
  "auth_failure example_collaborators (db example_world) (Some (lit ''Bearer expired'')) \<and>
   get_current_user example_collaborators (db example_world) (Some (lit ''Bearer expired'')) =
     Inl (HTTPException 401 (Message ''Token has expired.'')) \<and>
   snd (handle_request example_collaborators example_world
          (example_request\<lparr>authorization := Some (lit ''Bearer expired'')\<rparr>)) = example_world \<and>
   \<not> auth_failure example_collaborators (db example_world) (Some (lit ''Bearer admin'')) \<and>
   get_current_user example_collaborators (db example_world) (Some (lit ''Bearer admin'')) =
     Inr \<lparr>u_id = 1, u_is_active = True, u_group = ADMIN\<rparr>"
proof -
  have a: "auth_failure example_collaborators (db example_world) (Some (lit ''Bearer expired''))"
    by (simp add: auth_failure_def model_defs example_defs)
  have b: "\<not> auth_failure example_collaborators (db example_world) (Some (lit ''Bearer admin''))"
    by (simp add: auth_failure_def model_defs example_defs)
  have r: "authorization (example_request\<lparr>authorization := Some (lit ''Bearer expired'')\<rparr>) =
             Some (lit ''Bearer expired'')"
    by simp
  from a r
    identity_resolution_cases [of example_collaborators "db example_world"
      "Some (lit ''Bearer expired'')" example_world
      "example_request\<lparr>authorization := Some (lit ''Bearer expired'')\<rparr>"]
  have w: "snd (handle_request example_collaborators example_world
          (example_request\<lparr>authorization := Some (lit ''Bearer expired'')\<rparr>)) = example_world"
    by simp
  have e: "get_current_user example_collaborators (db example_world) (Some (lit ''Bearer expired'')) =
     Inl (HTTPException 401 (Message ''Token has expired.''))"
    by (simp add: model_defs example_defs)
  have g: "get_current_user example_collaborators (db example_world) (Some (lit ''Bearer admin'')) =
     Inr \<lparr>u_id = 1, u_is_active = True, u_group = ADMIN\<rparr>"
    by (simp add: model_defs example_defs)
  from a b w e g show ?thesis by blast
qed

text \<open>
  The list of the specification is not exact: the token \<open>zero\<close> decodes to a payload whose
  subject identifier is 0, the active account 0 exists, none of the listed cases holds,
  and identity resolution fails with 401.
\<close>

theorem identity_resolution_counterexample:
  "get_current_user example_collaborators (db example_world) (Some (lit ''Bearer zero'')) =
     Inl (HTTPException 401 (Message ''Invalid token.'')) \<and>
   \<not> listed_auth_failure example_collaborators (db example_world) (Some (lit ''Bearer zero''))"
  by (simp add: model_defs example_defs listed_auth_failure_def)

text \<open>
  Claim C10. For a header of the right form whose token decodes, identity resolution
  answers 401 \<open>Invalid token.\<close> exactly when the payload has no \<open>user_id\<close> or has one that
  is falsy; 0, the empty string and null are falsy. A falsy subject is treated as an
  absent one.
\<close>

theorem falsy_subject_rejected:
  assumes "prefix (lit ''Bearer '') h" and "bearer_token h = Some t"
    and "decode_access_token C t = Inr payload"
  shows "(get_current_user C d (Some h) = Inl (HTTPException 401 (Message ''Invalid token.''))) =
           (case map_of payload (lit ''user_id'') of None \<Rightarrow> True | Some v \<Rightarrow> \<not> truthy v) \<and>
         \<not> truthy (JInt 0) \<and> \<not> truthy (JStr []) \<and> \<not> truthy JNull"
proof -
  from assms(1) have "h \<noteq> []" by (auto simp: lit_def)
  then show ?thesis using assms
    by (auto simp: get_current_user_def unauthorized_def split: option.splits)
qed

theorem falsy_subject_rejected_witness:
  "prefix (lit ''Bearer '') (lit ''Bearer zero'') \<and> bearer_token (lit ''Bearer zero'') = Some (lit ''zero'') \<and>
   decode_access_token example_collaborators (lit ''zero'') = Inr [(lit ''user_id'', JInt 0)] \<and>
   get_current_user example_collaborators (db example_world) (Some (lit ''Bearer zero'')) =
     Inl (HTTPException 401 (Message ''Invalid token.''))"
proof -
  have p: "prefix (lit ''Bearer '') (lit ''Bearer zero'')" by (simp add: lit_def)
  have b: "bearer_token (lit ''Bearer zero'') = Some (lit ''zero'')"
    by (simp add: bearer_token_def split_def lit_def)
  have d: "decode_access_token example_collaborators (lit ''zero'') = Inr [(lit ''user_id'', JInt 0)]"
    by (simp add: example_defs)
  from falsy_subject_rejected [OF p b d, of "db example_world"] p b d show ?thesis by simp
qed

section \<open>Claims about an accepted request\<close>

text \<open>
  Claim C6. When a request is accepted, the row appended to the profile table and the
  body of the response hold, as first and last name, the submitted values lower-cased
  and then trimmed, and as info the submitted value trimmed, whatever code points the
  submitted values contain; a submitted first name \<open>  Ada \<close> is stored and returned as
  \<open>ada\<close>.
\<close>

theorem normalized_values_persisted:
  assumes "handle_request C w req = (Inr body, w')"
  shows "\<exists>row. profiles (db w') = profiles (db w) @ [row] \<and>
            p_first_name row = strip (lower (unicode_lower C) (first_name (form req))) \<and>
            p_last_name row = strip (lower (unicode_lower C) (last_name (form req))) \<and>
            p_info row = strip (info (form req)) \<and>
            r_first_name body = p_first_name row \<and>
            r_last_name body = p_last_name row \<and>
            r_info body = p_info row \<and>
            (first_name (form req) = lit ''  Ada '' \<longrightarrow>
               p_first_name row = lit ''ada'' \<and> r_first_name body = lit ''ada'')"
proof -
  have ada: "strip (lower (unicode_lower C) (lit ''  Ada '')) = lit ''ada''"
    by (simp add: strip_def lower_def lower_cp_def is_space_def lit_def)
  show ?thesis
    using handle_request_accepted(1,2) [OF assms] ada
    by (simp add: profiles_after)
qed

theorem normalized_values_persisted_witness:
  "handle_request example_collaborators example_world example_request =
     (Inr example_body, example_after) \<and>
   first_name (form example_request) = lit ''  Ada '' \<and>
   profiles (db example_after) = profiles (db example_world) @ [example_row] \<and>
   p_first_name example_row = lit ''ada'' \<and> r_first_name example_body = lit ''ada'' \<and>
   p_last_name example_row = lit ''lovelace'' \<and> p_info example_row = lit ''Analyst''"
proof -
  have f: "first_name (form example_request) = lit ''  Ada ''"
    by (simp add: example_defs)
  from normalized_values_persisted [OF example_accepted] f
  have "\<exists>row. profiles (db example_after) = profiles (db example_world) @ [row] \<and>
          p_first_name row = lit ''ada'' \<and> r_first_name example_body = lit ''ada''"
    by auto
  moreover have "profiles (db example_after) = profiles (db example_world) @ [example_row]"
    by (simp add: example_after_def profiles_after)
  ultimately show ?thesis using example_accepted f
    by (simp add: example_row_def)
qed

text \<open>
  Claim C7. When a request is accepted, the row appended to the profile table belongs to
  the target account and its avatar key is \<open>avatars/\<close>, the decimal text of the target
  account's identifier, \<open>_\<close> and the original filename of the upload: a function of these
  two values alone. The avatar was uploaded under this key before the insert.
\<close>

theorem avatar_key_persisted:
  assumes "handle_request C w req = (Inr body, w')"
  shows "\<exists>row. profiles (db w') = profiles (db w) @ [row] \<and>
           p_user_id row = path_user_id req \<and>
           p_avatar row = lit ''avatars/'' @ str_int (path_user_id req) @ lit ''_'' @
                            filename (avatar (form req)) \<and>
           journal w' = journal w @ [S3Upload (p_avatar row) (content (avatar (form req))),
                                       DbInsert row]"
  using handle_request_accepted(1) [OF assms]
  by (simp add: profiles_after avatar_key_def db_insert_def s3_put_def)

theorem avatar_key_persisted_witness:
  "handle_request example_collaborators example_world example_request =
     (Inr example_body, example_after) \<and>
   profiles (db example_after) = profiles (db example_world) @ [example_row] \<and>
   p_avatar example_row = lit ''avatars/2_ada.jpg'' \<and>
   lit ''avatars/'' @ str_int (path_user_id example_request) @ lit ''_'' @
      filename (avatar (form example_request)) = lit ''avatars/2_ada.jpg''"
proof -
  from avatar_key_persisted [OF example_accepted]
  obtain row where "profiles (db example_after) = profiles (db example_world) @ [row]"
    and "p_avatar row = lit ''avatars/'' @ str_int (path_user_id example_request) @ lit ''_'' @
                            filename (avatar (form example_request))"
    by blast
  moreover have "profiles (db example_after) = profiles (db example_world) @ [example_row]"
    by (simp add: example_after_def profiles_after)
  ultimately have "p_avatar example_row =
      lit ''avatars/'' @ str_int (path_user_id example_request) @ lit ''_'' @
        filename (avatar (form example_request))"
    by simp
  then show ?thesis using example_accepted
    by (simp add: example_after_def profiles_after example_row_def)
qed

text \<open>
  Claim C8. An accepted request is answered with the status 201 and a body of the eight
  fields \<open>id\<close>, \<open>user_id\<close>, \<open>first_name\<close>, \<open>last_name\<close>, \<open>gender\<close>, \<open>date_of_birth\<close>, \<open>info\<close> and
  \<open>avatar\<close>: the identifier of the new row, the target account's identifier, the
  normalized names and info, the gender and birth date as submitted, and as avatar what
  the blob store resolves from the stored key. When the blob store answers with a URL,
  as the specification says it does, the avatar of the body is a URL and is not the
  stored key.
\<close>

theorem created_response:
  assumes "handle_request C w req = (Inr body, w')"
  shows "response_status (fst (handle_request C w req)) = 201 \<and>
         (\<exists>row. profiles (db w') = profiles (db w) @ [row] \<and>
            p_user_id row = path_user_id req \<and>
            body = \<lparr>r_id = p_id row, r_user_id = path_user_id req,
                    r_first_name = strip (lower (unicode_lower C) (first_name (form req))),
                    r_last_name = strip (lower (unicode_lower C) (last_name (form req))),
                    r_gender = gender (form req),
                    r_date_of_birth = date_of_birth (form req),
                    r_info = strip (info (form req)),
                    r_avatar = get_file_url C (p_avatar row)\<rparr> \<and>
            (is_url (get_file_url C (p_avatar row)) \<longrightarrow>
               is_url (r_avatar body) \<and> r_avatar body \<noteq> p_avatar row))"
proof -
  let ?k = "avatar_key (path_user_id req) (filename (avatar (form req)))"
  have "is_url (get_file_url C ?k) \<longrightarrow> get_file_url C ?k \<noteq> ?k"
    using avatar_key_not_url [of "path_user_id req" "filename (avatar (form req))"] by auto
  then show ?thesis
    using handle_request_accepted(1,2) [OF assms] assms
    by (simp add: profiles_after)
qed

theorem created_response_witness:
  "handle_request example_collaborators example_world example_request =
     (Inr example_body, example_after) \<and>
   response_status (fst (handle_request example_collaborators example_world example_request)) = 201 \<and>
   profiles (db example_after) = profiles (db example_world) @ [example_row] \<and>
   is_url (get_file_url example_collaborators (p_avatar example_row)) \<and>
   r_avatar example_body = get_file_url example_collaborators (p_avatar example_row) \<and>
   r_avatar example_body = lit ''http://storage.local/avatars/2_ada.jpg'' \<and>
   p_avatar example_row = lit ''avatars/2_ada.jpg'' \<and>
   r_avatar example_body \<noteq> p_avatar example_row"
proof -
  have p: "profiles (db example_after) = profiles (db example_world) @ [example_row]"
    by (simp add: example_after_def profiles_after)
  have u: "is_url (get_file_url example_collaborators (p_avatar example_row))"
    by (simp add: is_url_def scheme_cp_def example_row_def example_collaborators_def lit_def)
  from created_response [OF example_accepted] p u
  have "response_status (fst (handle_request example_collaborators example_world example_request)) = 201 \<and>
        r_avatar example_body \<noteq> p_avatar example_row"
    by auto
  then show ?thesis using example_accepted p u
    by (simp add: example_body_def example_row_def example_collaborators_def lit_def)
qed

section \<open>Claims about field validation\<close>

text \<open>
  Claim C9, as amended. A request in which a field violates its rule, while the fields
  declared before it pass, is answered with the status 422 and a one-entry detail list
  \<open>{type, loc, msg, input}\<close>, and the world is unchanged: \<open>type\<close> is \<open>value_error\<close>, \<open>loc\<close>
  names exactly that field, \<open>msg\<close> is the reason the rule gives, and \<open>input\<close> is the
  submitted text for \<open>first_name\<close>, \<open>last_name\<close>, \<open>gender\<close> and \<open>info\<close>, the ISO text of the
  date for \<open>date_of_birth\<close>, and the filename of the upload for \<open>avatar\<close>.
\<close>

theorem field_errors:
  "(validate_name C (first_name (form req)) = Some m \<longrightarrow>
      handle_request C w req =
        (Inl (HTTPException 422 (Entries
           [\<lparr>e_type = ''value_error'', e_loc = [''first_name''], e_msg = m,
             e_input = first_name (form req)\<rparr>])), w)) \<and>
   (validate_name C (first_name (form req)) = None \<and>
    validate_name C (last_name (form req)) = Some m \<longrightarrow>
      handle_request C w req =
        (Inl (HTTPException 422 (Entries
           [\<lparr>e_type = ''value_error'', e_loc = [''last_name''], e_msg = m,
             e_input = last_name (form req)\<rparr>])), w)) \<and>
   (validate_name C (first_name (form req)) = None \<and>
    validate_name C (last_name (form req)) = None \<and>
    validate_gender C (gender (form req)) = Some m \<longrightarrow>
      handle_request C w req =
        (Inl (HTTPException 422 (Entries
           [\<lparr>e_type = ''value_error'', e_loc = [''gender''], e_msg = m,
             e_input = gender (form req)\<rparr>])), w)) \<and>
   (validate_name C (first_name (form req)) = None \<and>
    validate_name C (last_name (form req)) = None \<and>
    validate_gender C (gender (form req)) = None \<and>
    validate_birth_date C (date_of_birth (form req)) = Some m \<longrightarrow>
      handle_request C w req =
        (Inl (HTTPException 422 (Entries
           [\<lparr>e_type = ''value_error'', e_loc = [''date_of_birth''], e_msg = m,
             e_input = date_str (date_of_birth (form req))\<rparr>])), w)) \<and>
   (validate_name C (first_name (form req)) = None \<and>
    validate_name C (last_name (form req)) = None \<and>
    validate_gender C (gender (form req)) = None \<and>
    validate_birth_date C (date_of_birth (form req)) = None \<and>
    strip (info (form req)) = [] \<longrightarrow>
      handle_request C w req =
        (Inl (HTTPException 422 (Entries
           [\<lparr>e_type = ''value_error'', e_loc = [''info''],
             e_msg = lit ''Info field cannot be empty or contain only spaces.'',
             e_input = info (form req)\<rparr>])), w)) \<and>
   (validate_name C (first_name (form req)) = None \<and>
    validate_name C (last_name (form req)) = None \<and>
    validate_gender C (gender (form req)) = None \<and>
    validate_birth_date C (date_of_birth (form req)) = None \<and>
    strip (info (form req)) \<noteq> [] \<and>
    validate_image C (avatar (form req)) = Some m \<longrightarrow>
      handle_request C w req =
        (Inl (HTTPException 422 (Entries
           [\<lparr>e_type = ''value_error'', e_loc = [''avatar''], e_msg = m,
             e_input = filename (avatar (form req))\<rparr>])), w))"
  by (simp add: handle_request_def as_form_def validator_defs field_error_def Let_def)

theorem field_errors_witness:
  "validate_name example_collaborators (lit ''  Ada '') = None \<and>
   validate_name example_collaborators (lit ''Lovelace'') = None \<and>
   validate_gender example_collaborators (lit ''woman'') = None \<and>
   validate_birth_date example_collaborators \<lparr>year = 1876, month = 11, day = 4\<rparr> =
     Some (lit ''Invalid birth date'') \<and>
   handle_request example_collaborators example_world
       (example_request\<lparr>form := example_form\<lparr>date_of_birth :=
          \<lparr>year = 1876, month = 11, day = 4\<rparr>, info := [0xA0, 0x20, 0x85]\<rparr>\<rparr>) =
     (Inl (HTTPException 422 (Entries
        [\<lparr>e_type = ''value_error'', e_loc = [''date_of_birth''],
          e_msg = lit ''Invalid birth date'', e_input = lit ''1876-11-04''\<rparr>])), example_world) \<and>
   strip [0xA0, 0x20, 0x85] = [] \<and>
   handle_request example_collaborators example_world
       (example_request\<lparr>form := example_form\<lparr>info := [0xA0, 0x20, 0x85]\<rparr>\<rparr>) =
     (Inl (HTTPException 422 (Entries
        [\<lparr>e_type = ''value_error'', e_loc = [''info''],
          e_msg = lit ''Info field cannot be empty or contain only spaces.'',
          e_input = [0xA0, 0x20, 0x85]\<rparr>])), example_world)"
proof -
  let ?r1 = "example_request\<lparr>form := example_form\<lparr>date_of_birth :=
          \<lparr>year = 1876, month = 11, day = 4\<rparr>, info := [0xA0, 0x20, 0x85]\<rparr>\<rparr>"
  let ?r2 = "example_request\<lparr>form := example_form\<lparr>info := [0xA0, 0x20, 0x85]\<rparr>\<rparr>"
  have n1: "validate_name example_collaborators (lit ''  Ada '') = None"
    and n2: "validate_name example_collaborators (lit ''Lovelace'') = None"
    and g: "validate_gender example_collaborators (lit ''woman'') = None"
    and b: "validate_birth_date example_collaborators \<lparr>year = 1876, month = 11, day = 4\<rparr> =
              Some (lit ''Invalid birth date'')"
    and b2: "validate_birth_date example_collaborators \<lparr>year = 1990, month = 12, day = 10\<rparr> = None"
    by (simp_all add: example_defs lit_def)
  have s: "strip [0xA0, 0x20, 0x85] = []"
    by (simp add: strip_def is_space_def)
  have d: "date_str \<lparr>year = 1876, month = 11, day = 4\<rparr> = lit ''1876-11-04''"
    by (simp add: date_str_def zfill_def dec.simps digit_def lit_def)
  have f1: "form ?r1 = example_form\<lparr>date_of_birth :=
          \<lparr>year = 1876, month = 11, day = 4\<rparr>, info := [0xA0, 0x20, 0x85]\<rparr>"
    and f2: "form ?r2 = example_form\<lparr>info := [0xA0, 0x20, 0x85]\<rparr>"
    by (simp_all add: example_request_def)
  from field_errors [where C = example_collaborators and req = ?r1 and w = example_world
      and m = "lit ''Invalid birth date''"] n1 n2 g b d
  have h1: "handle_request example_collaborators example_world ?r1 =
     (Inl (HTTPException 422 (Entries
        [\<lparr>e_type = ''value_error'', e_loc = [''date_of_birth''],
          e_msg = lit ''Invalid birth date'', e_input = lit ''1876-11-04''\<rparr>])), example_world)"
    by (simp add: f1 example_form_def)
  from field_errors [where C = example_collaborators and req = ?r2 and w = example_world]
    n1 n2 g b2 s
  have h2: "handle_request example_collaborators example_world ?r2 =
     (Inl (HTTPException 422 (Entries
        [\<lparr>e_type = ''value_error'', e_loc = [''info''],
          e_msg = lit ''Info field cannot be empty or contain only spaces.'',
          e_input = [0xA0, 0x20, 0x85]\<rparr>])), example_world)"
    by (simp add: f2 example_form_def)
  from n1 n2 g b s h1 h2 show ?thesis by blast
qed

text \<open>
  The claim as the specification states it fails for the avatar: two requests that
  differ only in the bytes of a rejected upload get the same answer, whose \<open>input\<close> is the
  filename and not the submitted file.
\<close>

theorem avatar_input_counterexample:
  "validate_image example_collaborators \<lparr>filename = lit ''notes.txt'', content = ''hello''\<rparr> \<noteq> None \<and>
   validate_image example_collaborators \<lparr>filename = lit ''notes.txt'', content = ''world''\<rparr> \<noteq> None \<and>
   fst (handle_request example_collaborators example_world
     (example_request\<lparr>form := example_form\<lparr>avatar :=
        \<lparr>filename = lit ''notes.txt'', content = ''hello''\<rparr>\<rparr>\<rparr>)) =
     Inl (HTTPException 422 (Entries
        [\<lparr>e_type = ''value_error'', e_loc = [''avatar''], e_msg = lit ''Invalid image format'',
          e_input = lit ''notes.txt''\<rparr>])) \<and>
   fst (handle_request example_collaborators example_world
     (example_request\<lparr>form := example_form\<lparr>avatar :=
        \<lparr>filename = lit ''notes.txt'', content = ''world''\<rparr>\<rparr>\<rparr>)) =
     Inl (HTTPException 422 (Entries
        [\<lparr>e_type = ''value_error'', e_loc = [''avatar''], e_msg = lit ''Invalid image format'',
          e_input = lit ''notes.txt''\<rparr>]))"
  by (simp add: model_defs example_defs)

end
